theory Spec2Isabelle
  imports Main
begin

section \<open>Python values used by cthru.py\<close>

text \<open>
  Python strings are modelled as \<open>string\<close>; a character stands for one code point.
  Python's unbounded \<open>int\<close> is \<open>int\<close>.  A Python \<open>float\<close> is kept abstract
  (type variable \<open>'f\<close>): the only thing the program does with one is to format it, so
  every function that formats a float takes the formatting function \<open>fstr\<close>
  (Python's \<open>repr\<close> of a float) as its first argument.
\<close>

fun digits :: "nat \<Rightarrow> string" where
  "digits n = (if n < 10 then [''0123456789'' ! n]
               else digits (n div 10) @ [''0123456789'' ! (n mod 10)])"

declare digits.simps [simp del]

definition str_int :: "int \<Rightarrow> string" where
  \<comment> \<open>\<open>str(n)\<close> for an int\<close>
  "str_int n = (if n < 0 then CHR ''-'' # digits (nat (- n)) else digits (nat n))"

definition repr_integral :: "int \<Rightarrow> string" where
  \<comment> \<open>\<open>repr\<close> of the float whose value is the integer \<open>n\<close>, for \<open>|n| < 10^16\<close>:
      the instance of \<open>fstr\<close> used at concrete inputs\<close>
  "repr_integral n = str_int n @ ''.0''"

fun join :: "string \<Rightarrow> string list \<Rightarrow> string" where
  \<comment> \<open>\<open>sep.join(xs)\<close>\<close>
  "join sep [] = []"
| "join sep [x] = x"
| "join sep (x # y # ys) = x @ sep @ join sep (y # ys)"

definition truthy_str :: "string option \<Rightarrow> bool" where
  \<comment> \<open>truth value of an optional string: \<open>None\<close> and \<open>""\<close> are false\<close>
  "truthy_str v = (case v of None \<Rightarrow> False | Some s \<Rightarrow> s \<noteq> [])"

section \<open>The parsed command line (argparse Namespace)\<close>

text \<open>
  An attribute that only some sub-parsers define is an \<open>attr\<close>: \<open>NoAttr\<close> when
  \<open>hasattr\<close> is false, \<open>Attr v\<close> when the attribute exists with value \<open>v\<close>
  (\<open>v = None\<close> when the option was not given).  \<open>--year\<close> is a string for
  \<open>spending\<close> and an int for \<open>payroll\<close>.  The attributes that
  \<open>add_common_args\<close> defines exist in every Namespace that reaches the functions below.
\<close>

datatype 'a attr = NoAttr | Attr 'a

datatype yearval = YStr string | YInt int

datatype py_error = AttributeError

record 'f args =
  command :: string
  limit :: int
  offset :: "int option"
  format :: string
  output_arg :: "string option"
  search :: "string option"
  sort_arg :: "string option"
  url :: bool
  save_json :: bool
  year :: "yearval option attr"
  dept :: "string option attr"
  vendor :: "string option attr"
  fund :: "string option attr"
  min_amount :: "'f option attr"
  max_amount :: "'f option attr"
  name :: "string option attr"

definition truthy_year :: "yearval option \<Rightarrow> bool" where
  "truthy_year v = (case v of None \<Rightarrow> False
                    | Some (YStr s) \<Rightarrow> s \<noteq> []
                    | Some (YInt n) \<Rightarrow> n \<noteq> 0)"

fun fmt_year :: "yearval \<Rightarrow> string" where
  \<comment> \<open>\<open>f"{args.year}"\<close>\<close>
  "fmt_year (YStr s) = s"
| "fmt_year (YInt n) = str_int n"

definition truthy_offset :: "int option \<Rightarrow> bool" where
  \<comment> \<open>\<open>if args.offset:\<close> is false for \<open>None\<close> and for \<open>0\<close>\<close>
  "truthy_offset v = (case v of None \<Rightarrow> False | Some n \<Rightarrow> n \<noteq> 0)"

definition has_truthy :: "string option attr \<Rightarrow> bool" where
  \<comment> \<open>\<open>hasattr(args, 'x') and args.x\<close>\<close>
  "has_truthy a = (case a of NoAttr \<Rightarrow> False | Attr v \<Rightarrow> truthy_str v)"

definition attr_str :: "string option attr \<Rightarrow> string" where
  \<comment> \<open>the string of an attribute, read only under \<open>has_truthy\<close>\<close>
  "attr_str a = (case a of Attr (Some s) \<Rightarrow> s | _ \<Rightarrow> [])"

section \<open>build_query\<close>

definition like_clause :: "string \<Rightarrow> string \<Rightarrow> string" where
  \<comment> \<open>\<open>f"upper(<field>) like upper('%{v}%')"\<close>\<close>
  "like_clause field v = ''upper('' @ field @ '') like upper('%'' @ v @ ''%')''"

definition year_clauses :: "yearval option \<Rightarrow> string \<Rightarrow> string list" where
  "year_clauses y dataset_key =
     (if truthy_year y then
        (if dataset_key = ''spending''
           then [''budget_fiscal_year = '' @ [CHR 0x27] @ fmt_year (the y) @ [CHR 0x27]]
         else if dataset_key = ''payroll''
           then [''year = '' @ fmt_year (the y)]
         else [])
      else [])"

definition dept_clauses :: "string option \<Rightarrow> string \<Rightarrow> string list" where
  "dept_clauses d dataset_key =
     (if truthy_str d then
        (if dataset_key = ''spending'' then [like_clause ''department'' (the d)]
         else if dataset_key = ''payroll'' then [like_clause ''department_division'' (the d)]
         else [])
      else [])"

definition vendor_clauses :: "string option attr \<Rightarrow> string list" where
  "vendor_clauses v =
     (if has_truthy v then [like_clause ''vendor'' (attr_str v)] else [])"

definition fund_clauses :: "string option attr \<Rightarrow> string list" where
  "fund_clauses v =
     (if has_truthy v then [like_clause ''fund'' (attr_str v)] else [])"

definition amount_clauses ::
  "('f \<Rightarrow> string) \<Rightarrow> string \<Rightarrow> 'f option attr \<Rightarrow> string \<Rightarrow> string list" where
  \<comment> \<open>\<open>hasattr(args, 'min_amount') and args.min_amount is not None\<close>, operator \<open>op\<close>\<close>
  "amount_clauses fstr op a dataset_key =
     (case a of
        Attr (Some x) \<Rightarrow>
          (if dataset_key = ''spending'' then [''amount '' @ op @ '' '' @ fstr x]
           else if dataset_key = ''payroll'' then [''pay_total_actual '' @ op @ '' '' @ fstr x]
           else [])
      | _ \<Rightarrow> [])"

definition name_clauses :: "string option attr \<Rightarrow> string list" where
  "name_clauses v =
     (if has_truthy v
        then [''('' @ like_clause ''name_first'' (attr_str v) @ '' OR ''
                   @ like_clause ''name_last'' (attr_str v) @ '')'']
      else [])"

definition search_clauses :: "string option \<Rightarrow> string \<Rightarrow> string list" where
  "search_clauses s dataset_key =
     (if truthy_str s then
        (if dataset_key = ''spending''
           then [''('' @ like_clause ''vendor'' (the s) @ '' OR ''
                      @ like_clause ''department'' (the s) @ '')'']
         else if dataset_key = ''payroll''
           then [''('' @ like_clause ''name_first'' (the s) @ '' OR ''
                      @ like_clause ''name_last'' (the s) @ '' OR ''
                      @ like_clause ''department_division'' (the s) @ '')'']
         else [])
      else [])"

definition where_clauses ::
  "('f \<Rightarrow> string) \<Rightarrow> 'f args \<Rightarrow> yearval option \<Rightarrow> string option \<Rightarrow> string \<Rightarrow> string list" where
  \<comment> \<open>the list \<open>where_clauses\<close> after the last \<open>append\<close>; \<open>y\<close> and \<open>d\<close> are the values of
      \<open>args.year\<close> and \<open>args.dept\<close>\<close>
  "where_clauses fstr a y d dataset_key =
     (let wc = [];
          wc = wc @ year_clauses y dataset_key;
          wc = wc @ dept_clauses d dataset_key;
          wc = wc @ vendor_clauses (vendor a);
          wc = wc @ fund_clauses (fund a);
          wc = wc @ amount_clauses fstr ''>='' (min_amount a) dataset_key;
          wc = wc @ amount_clauses fstr ''<='' (max_amount a) dataset_key;
          wc = wc @ name_clauses (name a);
          wc = wc @ search_clauses (search a) dataset_key
      in wc)"

type_synonym params = "(string \<times> string) list"

definition build_query :: "('f \<Rightarrow> string) \<Rightarrow> 'f args \<Rightarrow> string \<Rightarrow> py_error + params" where
  \<comment> \<open>The dict \<open>params\<close> in insertion order.  \<open>args.year\<close> and \<open>args.dept\<close> are read
      without \<open>hasattr\<close>: a Namespace without them raises \<open>AttributeError\<close>.\<close>
  "build_query fstr a dataset_key =
     (case year a of
        NoAttr \<Rightarrow> Inl AttributeError
      | Attr y \<Rightarrow>
          (case dept a of
             NoAttr \<Rightarrow> Inl AttributeError
           | Attr d \<Rightarrow>
               (let params = [(''$limit'', str_int (limit a))];
                    params = (if truthy_offset (offset a)
                                then params @ [(''$offset'', str_int (the (offset a)))]
                              else params);
                    wc = where_clauses fstr a y d dataset_key;
                    params = (if wc \<noteq> []
                                then params @ [(''$where'', join '' AND '' wc)]
                              else params);
                    params = (if truthy_str (sort_arg a)
                                then params @ [(''$order'', the (sort_arg a))]
                              else params)
                in Inr params)))"

definition spending_args ::
  "int \<Rightarrow> int option \<Rightarrow> string option \<Rightarrow> string option \<Rightarrow> string option \<Rightarrow> string option
     \<Rightarrow> 'f option \<Rightarrow> 'f option \<Rightarrow> string option \<Rightarrow> string option \<Rightarrow> 'f args" where
  \<comment> \<open>A Namespace of the \<open>spending\<close> sub-parser: \<open>year\<close> is a string, there is no
      \<open>name\<close> attribute; table output to the terminal.\<close>
  "spending_args lim off y d v f mn mx s so =
     \<lparr> command = ''spending'', limit = lim, offset = off, format = ''table'',
       output_arg = None, search = s, sort_arg = so, url = False, save_json = False,
       year = Attr (map_option YStr y), dept = Attr d, vendor = Attr v, fund = Attr f,
       min_amount = Attr mn, max_amount = Attr mx, name = NoAttr \<rparr>"

definition payroll_args ::
  "int \<Rightarrow> int option \<Rightarrow> int option \<Rightarrow> string option \<Rightarrow> string option
     \<Rightarrow> 'f option \<Rightarrow> 'f option \<Rightarrow> string option \<Rightarrow> string option \<Rightarrow> 'f args" where
  \<comment> \<open>A Namespace of the \<open>payroll\<close> sub-parser: \<open>year\<close> is an int, there are no
      \<open>vendor\<close> and \<open>fund\<close> attributes.\<close>
  "payroll_args lim off y d nm mn mx s so =
     \<lparr> command = ''payroll'', limit = lim, offset = off, format = ''table'',
       output_arg = None, search = s, sort_arg = so, url = False, save_json = False,
       year = Attr (map_option YInt y), dept = Attr d, vendor = NoAttr, fund = NoAttr,
       min_amount = Attr mn, max_amount = Attr mx, name = Attr nm \<rparr>"

definition common_args :: "string \<Rightarrow> int \<Rightarrow> int option \<Rightarrow> string option \<Rightarrow> 'f args" where
  \<comment> \<open>A Namespace of the \<open>settlements\<close> or \<open>revenue\<close> sub-parser: only the
      attributes of \<open>add_common_args\<close>.\<close>
  "common_args cmd lim off s =
     \<lparr> command = cmd, limit = lim, offset = off, format = ''table'',
       output_arg = None, search = s, sort_arg = None, url = False, save_json = False,
       year = NoAttr, dept = NoAttr, vendor = NoAttr, fund = NoAttr,
       min_amount = NoAttr, max_amount = NoAttr, name = NoAttr \<rparr>"

definition reduced_params :: "'f args \<Rightarrow> params" where
  \<comment> \<open>the dict \<open>params\<close> that \<open>cmd_settlements\<close> and \<open>cmd_revenue\<close> build (the two
      functions build it with the same three statements)\<close>
  "reduced_params a =
     (let params = [(''$limit'', str_int (limit a))];
          params = (if truthy_offset (offset a)
                      then params @ [(''$offset'', str_int (the (offset a)))]
                    else params);
          params = (if truthy_str (search a)
                      then params @ [(''$q'', the (search a))]
                    else params)
      in params)"

definition cmd_settlements_params :: "'f args \<Rightarrow> params" where
  "cmd_settlements_params a = reduced_params a"

definition cmd_revenue_params :: "'f args \<Rightarrow> params" where
  "cmd_revenue_params a = reduced_params a"

subsection \<open>The filter mapping of the specification, for the spending dataset\<close>

text \<open>
  The specification's table: one entry per filter, in the fixed order year, department,
  vendor, fund, min-amount, max-amount, name, search.  An entry is \<open>None\<close> when the
  filter is not active and \<open>Some clause\<close> when it is.  A string filter is active when it
  was given and is not empty; an amount filter is active when it was given.  The
  \<open>spending\<close> command has no name filter.
\<close>

definition spec_like :: "string \<Rightarrow> string option \<Rightarrow> string option" where
  "spec_like field v =
     (case v of None \<Rightarrow> None
      | Some s \<Rightarrow> if s = [] then None
                  else Some (''upper('' @ field @ '') like upper('%'' @ s @ ''%')''))"

definition spec_spending_filters ::
  "('f \<Rightarrow> string) \<Rightarrow> string option \<Rightarrow> string option \<Rightarrow> string option \<Rightarrow> string option
     \<Rightarrow> 'f option \<Rightarrow> 'f option \<Rightarrow> string option \<Rightarrow> string option list" where
  "spec_spending_filters fstr y d v f mn mx s =
     [ (case y of None \<Rightarrow> None
        | Some ys \<Rightarrow> if ys = [] then None
                     else Some (''budget_fiscal_year = '' @ [CHR 0x27] @ ys @ [CHR 0x27])),
       spec_like ''department'' d,
       spec_like ''vendor'' v,
       spec_like ''fund'' f,
       map_option (\<lambda>x. ''amount >= '' @ fstr x) mn,
       map_option (\<lambda>x. ''amount <= '' @ fstr x) mx,
       None,
       (case s of None \<Rightarrow> None
        | Some t \<Rightarrow> if t = [] then None
                    else Some (''('' @ the (spec_like ''vendor'' s) @ '' OR ''
                                    @ the (spec_like ''department'' s) @ '')'')) ]"

definition spec_clauses :: "string option list \<Rightarrow> string list" where
  \<comment> \<open>the clauses of the active filters, in the order of the table\<close>
  "spec_clauses fs = concat (map (\<lambda>c. case c of None \<Rightarrow> [] | Some x \<Rightarrow> [x]) fs)"

definition filter_active :: "'f args \<Rightarrow> bool" where
  \<comment> \<open>some filter option that \<open>build_query\<close> looks at is set\<close>
  "filter_active a =
     ((case year a of Attr y \<Rightarrow> truthy_year y | NoAttr \<Rightarrow> False)
      \<or> has_truthy (dept a) \<or> has_truthy (vendor a) \<or> has_truthy (fund a)
      \<or> (case min_amount a of Attr (Some x) \<Rightarrow> True | _ \<Rightarrow> False)
      \<or> (case max_amount a of Attr (Some x) \<Rightarrow> True | _ \<Rightarrow> False)
      \<or> has_truthy (name a) \<or> truthy_str (search a))"

section \<open>Records and rendering\<close>

text \<open>
  A record of the result set is a JSON object: an association list in key order, with
  distinct keys (as \<open>json.loads\<close> builds it).  Its values are the scalars that the
  specification's data model allows.
\<close>

datatype 'f jvalue = JNull | JBool bool | JInt int | JFloat 'f | JStr string

type_synonym 'f row = "(string \<times> 'f jvalue) list"

fun py_str :: "('f \<Rightarrow> string) \<Rightarrow> 'f jvalue \<Rightarrow> string" where
  \<comment> \<open>\<open>str(v)\<close>\<close>
  "py_str fstr JNull = ''None''"
| "py_str fstr (JBool b) = (if b then ''True'' else ''False'')"
| "py_str fstr (JInt n) = str_int n"
| "py_str fstr (JFloat x) = fstr x"
| "py_str fstr (JStr s) = s"

definition get_str :: "('f \<Rightarrow> string) \<Rightarrow> 'f row \<Rightarrow> string \<Rightarrow> string" where
  \<comment> \<open>\<open>str(row.get(col, ""))\<close>\<close>
  "get_str fstr r col = (case map_of r col of None \<Rightarrow> [] | Some v \<Rightarrow> py_str fstr v)"

definition ljust :: "nat \<Rightarrow> string \<Rightarrow> string" where
  \<comment> \<open>\<open>s.ljust(w)\<close>\<close>
  "ljust w s = s @ replicate (w - length s) CHR '' ''"

subsection \<open>format_table\<close>

definition table_cols :: "'f row \<Rightarrow> string list option \<Rightarrow> string list" where
  \<comment> \<open>the columns to show, from the first record \<open>data[0]\<close>\<close>
  "table_cols first columns =
     (case columns of
        Some cs \<Rightarrow> (if cs \<noteq> [] then filter (\<lambda>c. c \<in> fst ` set first) cs
                   else take 8 (map fst first))
      | None \<Rightarrow> take 8 (map fst first))"

definition col_max_len :: "('f \<Rightarrow> string) \<Rightarrow> 'f row list \<Rightarrow> string \<Rightarrow> nat" where
  \<comment> \<open>\<open>max_len\<close> after the loop over \<open>data[:50]\<close>\<close>
  "col_max_len fstr data col =
     foldl (\<lambda>max_len r. max max_len (length (take 40 (get_str fstr r col))))
       (length col) (take 50 data)"

definition col_width :: "('f \<Rightarrow> string) \<Rightarrow> 'f row list \<Rightarrow> string \<Rightarrow> nat" where
  \<comment> \<open>\<open>widths[col]\<close>\<close>
  "col_width fstr data col = min (col_max_len fstr data col) 40"

definition header_cell :: "('f \<Rightarrow> string) \<Rightarrow> 'f row list \<Rightarrow> string \<Rightarrow> string" where
  \<comment> \<open>\<open>col.ljust(widths[col])[:widths[col]]\<close>\<close>
  "header_cell fstr data col =
     take (col_width fstr data col) (ljust (col_width fstr data col) col)"

definition table_cell :: "('f \<Rightarrow> string) \<Rightarrow> 'f row list \<Rightarrow> 'f row \<Rightarrow> string \<Rightarrow> string" where
  \<comment> \<open>\<open>str(row.get(col, ""))[:widths[col]].ljust(widths[col])\<close>\<close>
  "table_cell fstr data r col =
     ljust (col_width fstr data col) (take (col_width fstr data col) (get_str fstr r col))"

definition format_table :: "('f \<Rightarrow> string) \<Rightarrow> 'f row list \<Rightarrow> string list option \<Rightarrow> string" where
  "format_table fstr data columns =
     (case data of
        [] \<Rightarrow> ''No results found.''
      | first # _ \<Rightarrow>
          (let cols = table_cols first columns;
               header = join '' | '' (map (header_cell fstr data) cols);
               separator = join ''-+-''
                  (map (\<lambda>col. replicate (col_width fstr data col) CHR ''-'') cols);
               lines = [header, separator]
                  @ map (\<lambda>r. join '' | '' (map (table_cell fstr data r) cols)) data
           in join [CHR 0x0A] lines))"

subsection \<open>format_csv\<close>

definition replace_dq :: "string \<Rightarrow> string" where
  \<comment> \<open>\<open>val.replace('"', '""')\<close>\<close>
  "replace_dq s = concat (map (\<lambda>c. if c = CHR 0x22 then [CHR 0x22, CHR 0x22] else [c]) s)"

definition csv_value :: "string \<Rightarrow> string" where
  \<comment> \<open>the body of the inner loop, applied to \<open>str(row.get(col, ""))\<close>\<close>
  "csv_value s =
     (let val = replace_dq s
      in if CHR '','' \<in> set val \<or> CHR 0x22 \<in> set val \<or> CHR 0x0A \<in> set val
         then [CHR 0x22] @ val @ [CHR 0x22]
         else val)"

definition format_csv :: "('f \<Rightarrow> string) \<Rightarrow> 'f row list \<Rightarrow> string" where
  "format_csv fstr data =
     (case data of
        [] \<Rightarrow> []
      | first # _ \<Rightarrow>
          (let cols = map fst first;
               output = [join '','' cols]
                  @ map (\<lambda>r. join '','' (map (\<lambda>col. csv_value (get_str fstr r col)) cols)) data
           in join [CHR 0x0A] output))"

subsection \<open>Reading a CSV field back\<close>

text \<open>
  The field grammar of standard CSV (RFC 4180, as Python's \<open>csv.reader\<close> reads it): a
  field that starts with a double quote runs to the closing double quote, a doubled
  double quote inside standing for one; any other field runs to the next comma or line
  end.  \<open>std_csv_field\<close> reads one field from the front of the text and returns it with
  the rest of the text; \<open>None\<close> when a quoted field is not closed.
\<close>

fun std_csv_quoted :: "string \<Rightarrow> (string \<times> string) option" where
  \<comment> \<open>the text after the opening double quote\<close>
  "std_csv_quoted [] = None"
| "std_csv_quoted [c] = (if c = CHR 0x22 then Some ([], []) else None)"
| "std_csv_quoted (c # d # cs) =
     (if c \<noteq> CHR 0x22 then map_option (\<lambda>(f, r). (c # f, r)) (std_csv_quoted (d # cs))
      else if d = CHR 0x22 then map_option (\<lambda>(f, r). (CHR 0x22 # f, r)) (std_csv_quoted cs)
      else Some ([], d # cs))"

definition std_csv_field :: "string \<Rightarrow> (string \<times> string) option" where
  "std_csv_field s =
     (case s of
        [] \<Rightarrow> Some ([], [])
      | c # cs \<Rightarrow>
          if c = CHR 0x22 then std_csv_quoted cs
          else Some (takeWhile (\<lambda>x. x \<notin> {CHR '','', CHR 0x0A, CHR 0x0D}) s,
                     dropWhile (\<lambda>x. x \<notin> {CHR '','', CHR 0x0A, CHR 0x0D}) s))"

section \<open>output_results\<close>

text \<open>
  What \<open>output_results\<close> does to the outside is the list of its effects, in order:
  a line printed to standard output, or a text file written.  The library calls whose
  results it only passes on are parameters, collected in \<open>sys\<close>: \<open>json.dumps\<close> of the
  data and of the snapshot wrapper, the two readings of the clock, and
  \<open>urllib.parse.urlencode\<close>.
\<close>

datatype effect = Print string | WriteText string string

record 'f sys =
  dumps_data :: "'f row list \<Rightarrow> string"
  dumps_wrapped :: "string \<Rightarrow> string option \<Rightarrow> string \<Rightarrow> nat \<Rightarrow> 'f row list \<Rightarrow> string"
  now_strftime :: string
  now_isoformat :: string
  urlencode :: "params \<Rightarrow> string"

definition is_word_char :: "char \<Rightarrow> bool" where
  \<comment> \<open>\<open>\w\<close> on the ASCII range: a letter, a digit or the underscore\<close>
  "is_word_char c =
     (c \<in> set ''abcdefghijklmnopqrstuvwxyzABCDEFGHIJKLMNOPQRSTUVWXYZ0123456789_'')"

definition strip_underscores :: "string \<Rightarrow> string" where
  \<comment> \<open>\<open>s.strip('_')\<close>\<close>
  "strip_underscores s =
     rev (dropWhile (\<lambda>c. c = CHR ''_'') (rev (dropWhile (\<lambda>c. c = CHR ''_'') s)))"

definition sanitize_with :: "(char \<Rightarrow> bool) \<Rightarrow> string \<Rightarrow> string" where
  \<comment> \<open>\<open>re.sub(r'[^\w]', '_', s)[:20].strip('_')\<close> for a given class \<open>\w\<close>\<close>
  "sanitize_with w s =
     strip_underscores (take 20 (map (\<lambda>c. if w c then c else CHR ''_'') s))"

definition sanitize :: "string \<Rightarrow> string" where
  "sanitize s = sanitize_with is_word_char s"

definition clean_part :: "string option attr \<Rightarrow> string list" where
  \<comment> \<open>\<open>if hasattr(args, 'x') and args.x: parts.append(sanitized x)\<close>\<close>
  "clean_part a = (if has_truthy a then [sanitize (attr_str a)] else [])"

definition snapshot_parts :: "'f sys \<Rightarrow> 'f args \<Rightarrow> string list" where
  "snapshot_parts sy a =
     (let parts = [command a];
          parts = parts @ (case year a of
                             Attr y \<Rightarrow> if truthy_year y then [''fy'' @ fmt_year (the y)] else []
                           | NoAttr \<Rightarrow> []);
          parts = parts @ clean_part (vendor a);
          parts = parts @ clean_part (fund a);
          parts = parts @ clean_part (dept a);
          parts = parts @ clean_part (name a);
          parts = parts @ clean_part (Attr (search a));
          parts = parts @ [now_strftime sy]
      in parts)"

definition fmt_opt :: "string option \<Rightarrow> string" where
  \<comment> \<open>\<open>f"{x}"\<close> for a string or \<open>None\<close>\<close>
  "fmt_opt x = (case x of None \<Rightarrow> ''None'' | Some s \<Rightarrow> s)"

definition snapshot_api_url :: "'f sys \<Rightarrow> string option \<Rightarrow> params option \<Rightarrow> string" where
  "snapshot_api_url sy dataset_id ps =
     (let api_url = ''https://cthru.data.socrata.com/resource/'' @ fmt_opt dataset_id @ ''.json''
      in case ps of
           None \<Rightarrow> api_url
         | Some p \<Rightarrow>
             if p \<noteq> [] then
               (let url_params = filter (\<lambda>(k, v). k \<noteq> ''$limit'') p
                in if url_params \<noteq> [] then api_url @ ''?'' @ urlencode sy url_params
                   else api_url)
             else api_url)"

definition snapshot_effects ::
  "'f sys \<Rightarrow> 'f row list \<Rightarrow> 'f args \<Rightarrow> string option \<Rightarrow> params option \<Rightarrow> effect list" where
  \<comment> \<open>the \<open>--save-json\<close> block\<close>
  "snapshot_effects sy data a dataset_id ps =
     (let json_file = join ''_'' (snapshot_parts sy a) @ ''.json'';
          api_url = snapshot_api_url sy dataset_id ps;
          portal_url = (if truthy_str dataset_id
                          then Some (''https://cthru.data.socrata.com/d/'' @ the dataset_id)
                        else None)
      in [WriteText json_file
            (dumps_wrapped sy api_url portal_url (now_isoformat sy) (length data) data),
          Print (''JSON saved to '' @ json_file)])"

definition output_results ::
  "('f \<Rightarrow> string) \<Rightarrow> 'f sys \<Rightarrow> 'f row list \<Rightarrow> 'f args \<Rightarrow> string list option
     \<Rightarrow> string option \<Rightarrow> string option \<Rightarrow> params option \<Rightarrow> effect list" where
  "output_results fstr sy data a default_columns url_text dataset_id ps =
     (if data = [] then [Print ''No results found.'']
      else
        (let snap = (if save_json a then snapshot_effects sy data a dataset_id ps else []);
             out = (if format a = ''json'' then dumps_data sy data
                    else if format a = ''csv'' then format_csv fstr data
                    else format_table fstr data default_columns);
             deliver =
               (if truthy_str (output_arg a)
                  then [WriteText (the (output_arg a)) out,
                        Print (''Results saved to '' @ the (output_arg a) @ '' (''
                               @ str_int (int (length data)) @ '' records)'')]
                else [Print out,
                      Print ([CHR 0x0A] @ ''--- '' @ str_int (int (length data))
                             @ '' records ---'')]);
             show_url = (if url a \<and> truthy_str url_text
                           then [Print ([CHR 0x0A] @ ''View in browser: '' @ the url_text)]
                         else [])
         in snap @ deliver @ show_url))"

definition writes :: "effect list \<Rightarrow> (string \<times> string) list" where
  \<comment> \<open>the files an effect list writes\<close>
  "writes es = concat (map (\<lambda>e. case e of WriteText f t \<Rightarrow> [(f, t)] | Print _ \<Rightarrow> []) es)"

subsection \<open>Decimal representations of positive integers\<close>

definition positive_decimal :: "string \<Rightarrow> bool" where
  \<comment> \<open>the string is the decimal representation of a positive integer: digits only,
      the first one not zero\<close>
  "positive_decimal s =
     (case s of [] \<Rightarrow> False
      | c # cs \<Rightarrow> c \<in> set ''123456789'' \<and> list_all (\<lambda>d. d \<in> set ''0123456789'') cs)"

section \<open>Decimal numerals\<close>

lemma digits_nonempty: "digits n \<noteq> []"
  by (subst digits.simps) simp

lemma digit_char_inj:
  "n < 10 \<Longrightarrow> m < 10 \<Longrightarrow> ''0123456789'' ! n = ''0123456789'' ! m \<Longrightarrow> n = m"
proof -
  assume a: "n < 10" "m < 10" "''0123456789'' ! n = ''0123456789'' ! m"
  have d: "distinct ''0123456789''" by simp
  have "n < length ''0123456789''" "m < length ''0123456789''" using a by simp_all
  with d a(3) show "n = m" by (simp only: nth_eq_iff_index_eq)
qed

lemma digits_inj: "digits n = digits m \<Longrightarrow> n = m"
proof (induction n arbitrary: m rule: digits.induct)
  case (1 n)
  show ?case
  proof (cases "n < 10")
    case True
    note n = this
    show ?thesis
    proof (cases "m < 10")
      case True
      with n "1.prems" show ?thesis
        by (simp add: digits.simps[of n] digits.simps[of m] digit_char_inj)
    next
      case False
      with n "1.prems" digits_nonempty[of "m div 10"] show ?thesis
        by (simp add: digits.simps[of n] digits.simps[of m])
    qed
  next
    case False
    note n = this
    show ?thesis
    proof (cases "m < 10")
      case True
      with n "1.prems" digits_nonempty[of "n div 10"] show ?thesis
        by (simp add: digits.simps[of n] digits.simps[of m])
    next
      case False
      with n "1.prems" have e: "digits (n div 10) = digits (m div 10)"
        and c: "''0123456789'' ! (n mod 10) = ''0123456789'' ! (m mod 10)"
        by (simp_all add: digits.simps[of n] digits.simps[of m])
      from "1.IH"[OF n e] have "n div 10 = m div 10" .
      moreover from c have "n mod 10 = m mod 10" by (intro digit_char_inj) simp_all
      ultimately show ?thesis by (metis div_mult_mod_eq)
    qed
  qed
qed

lemma digits_chars: "set (digits n) \<subseteq> set ''0123456789''"
proof (induction n rule: digits.induct)
  case (1 n)
  show ?case
  proof (cases "n < 10")
    case True
    then have "''0123456789'' ! n \<in> set ''0123456789''" by (intro nth_mem) simp
    with True show ?thesis by (subst digits.simps) simp
  next
    case False
    have "''0123456789'' ! (n mod 10) \<in> set ''0123456789''" by (intro nth_mem) simp
    with False "1.IH" show ?thesis by (subst digits.simps) simp
  qed
qed

lemma digits_no_minus: "digits n \<noteq> CHR ''-'' # cs"
proof
  assume "digits n = CHR ''-'' # cs"
  then have "CHR ''-'' \<in> set (digits n)" by simp
  with digits_chars[of n] show False by auto
qed

lemma str_int_inj: "str_int a = str_int b \<Longrightarrow> a = b"
  using digits_no_minus digits_inj
  by (auto simp: str_int_def split: if_splits dest!: digits_inj) (metis digits_no_minus)+


lemma str_int_50: "str_int 50 = ''50''"
  by (simp add: str_int_def digits.simps)

lemma digits_all: "list_all (\<lambda>d. d \<in> set ''0123456789'') (digits n)"
  using digits_chars[of n] unfolding list_all_iff by blast

lemma digit_nonzero: "0 < n \<Longrightarrow> n < 10 \<Longrightarrow> ''0123456789'' ! n \<in> set ''123456789''"
proof -
  assume "0 < n" "n < 10"
  then obtain m where m: "n = Suc m" "m < 9" by (cases n) auto
  have "''0123456789'' ! Suc m = ''123456789'' ! m" by simp
  moreover have "''123456789'' ! m \<in> set ''123456789''" using m(2) by (intro nth_mem) simp
  ultimately show ?thesis using m(1) by simp
qed

lemma hd_digits_pos: "0 < n \<Longrightarrow> hd (digits n) \<in> set ''123456789''"
proof (induction n rule: digits.induct)
  case (1 n)
  show ?case
  proof (cases "n < 10")
    case True
    with "1.prems" digit_nonzero[of n] show ?thesis by (subst digits.simps) simp
  next
    case False
    then have "0 < n div 10" by simp
    with "1.IH" False have "hd (digits (n div 10)) \<in> set ''123456789''" by simp
    with False digits_nonempty[of "n div 10"] show ?thesis by (subst digits.simps) simp
  qed
qed

lemma digits_0: "digits 0 = ''0''"
  by (simp add: digits.simps)

lemma positive_decimal_str_int: "positive_decimal (str_int n) = (0 < n)"
proof (cases "0 < n")
  case True
  obtain c cs where e: "digits (nat n) = c # cs"
    using digits_nonempty[of "nat n"] by (cases "digits (nat n)") auto
  from hd_digits_pos[of "nat n"] True e have "c \<in> set ''123456789''" by simp
  moreover from digits_all[of "nat n"] e have "list_all (\<lambda>d. d \<in> set ''0123456789'') cs" by simp
  ultimately show ?thesis using True e by (simp add: positive_decimal_def str_int_def)
next
  case False
  then show ?thesis
    by (cases "n = 0") (simp_all add: positive_decimal_def str_int_def digits_0)
qed


section \<open>Properties of build_query\<close>

lemmas clause_defs = year_clauses_def dept_clauses_def vendor_clauses_def fund_clauses_def
  amount_clauses_def name_clauses_def search_clauses_def

lemma build_query_Inr:
  "year a = Attr y \<Longrightarrow> dept a = Attr d \<Longrightarrow>
   build_query fstr a k =
     Inr ([(''$limit'', str_int (limit a))]
          @ (if truthy_offset (offset a) then [(''$offset'', str_int (the (offset a)))] else [])
          @ (if where_clauses fstr a y d k \<noteq> []
               then [(''$where'', join '' AND '' (where_clauses fstr a y d k))] else [])
          @ (if truthy_str (sort_arg a) then [(''$order'', the (sort_arg a))] else []))"
  by (simp add: build_query_def Let_def)

lemma build_query_Inl:
  "year a = NoAttr \<or> dept a = NoAttr \<Longrightarrow> build_query fstr a k = Inl AttributeError"
  by (auto simp: build_query_def split: attr.splits)

lemma year_spending:
  "year_clauses (map_option YStr y) ''spending''
   = (case y of None \<Rightarrow> []
      | Some ys \<Rightarrow> if ys = [] then []
                   else [''budget_fiscal_year = '' @ [CHR 0x27] @ ys @ [CHR 0x27]])"
  by (cases y) (simp_all add: year_clauses_def truthy_year_def)

lemma dept_spending:
  "dept_clauses d ''spending'' = (case spec_like ''department'' d of None \<Rightarrow> [] | Some x \<Rightarrow> [x])"
  by (cases d) (simp_all add: dept_clauses_def truthy_str_def spec_like_def like_clause_def)

lemma vendor_spec:
  "vendor_clauses (Attr v) = (case spec_like ''vendor'' v of None \<Rightarrow> [] | Some x \<Rightarrow> [x])"
  by (cases v) (simp_all add: vendor_clauses_def has_truthy_def attr_str_def truthy_str_def
      spec_like_def like_clause_def)

lemma fund_spec:
  "fund_clauses (Attr v) = (case spec_like ''fund'' v of None \<Rightarrow> [] | Some x \<Rightarrow> [x])"
  by (cases v) (simp_all add: fund_clauses_def has_truthy_def attr_str_def truthy_str_def
      spec_like_def like_clause_def)

lemma amount_spending:
  "amount_clauses fstr op (Attr m) ''spending''
   = (case m of None \<Rightarrow> [] | Some x \<Rightarrow> [''amount '' @ op @ '' '' @ fstr x])"
  by (cases m) (simp_all add: amount_clauses_def)

lemma search_spending:
  "search_clauses s ''spending''
   = (case s of None \<Rightarrow> []
      | Some t \<Rightarrow> if t = [] then []
                  else [''('' @ the (spec_like ''vendor'' s) @ '' OR ''
                            @ the (spec_like ''department'' s) @ '')''])"
  by (cases s) (simp_all add: search_clauses_def truthy_str_def spec_like_def like_clause_def)

lemma spending_where_clauses:
  assumes "vendor a = Attr v" "fund a = Attr f" "min_amount a = Attr mn" "max_amount a = Attr mx"
    "name a = NoAttr" "search a = s"
  shows "where_clauses fstr a (map_option YStr y) d ''spending''
         = spec_clauses (spec_spending_filters fstr y d v f mn mx s)"
proof -
  have n: "name_clauses NoAttr = []" by (simp add: name_clauses_def has_truthy_def)
  show ?thesis
    unfolding where_clauses_def Let_def assms year_spending dept_spending vendor_spec
      fund_spec amount_spending search_spending n spec_clauses_def spec_spending_filters_def
    by (simp split: option.splits)
qed

lemma spec_clauses_length: "length (spec_clauses fs) = length (filter (\<lambda>c. c \<noteq> None) fs)"
  by (induction fs) (auto simp: spec_clauses_def split: option.splits)


text \<open>
  C1, as the code behaves: for \<open>spending\<close> with vendor "W. B MASON", year "2024",
  limit 50 and no other filter, \<open>build_query\<close> returns \<open>$limit = "50"\<close> and a
  \<open>$where\<close> clause in which the year predicate comes first and the vendor predicate
  second.
\<close>

theorem spending_example_year_then_vendor:
  "build_query repr_integral
     (spending_args 50 None (Some ''2024'') None (Some ''W. B MASON'') None None None None None)
     ''spending''
   = Inr [(''$limit'', ''50''),
          (''$where'',
           ''budget_fiscal_year = '2024' AND upper(vendor) like upper('%W. B MASON%')'')]"
  by (simp add: build_query_def spending_args_def where_clauses_def year_clauses_def
      dept_clauses_def vendor_clauses_def fund_clauses_def amount_clauses_def
      name_clauses_def search_clauses_def like_clause_def truthy_year_def truthy_str_def
      truthy_offset_def has_truthy_def attr_str_def str_int_50)

text \<open>
  C1, as the claim states it, fails: the mapping with the vendor predicate before the
  year predicate is not what \<open>build_query\<close> returns at that input.
\<close>

theorem spending_example_vendor_first_refuted:
  "build_query repr_integral
     (spending_args 50 None (Some ''2024'') None (Some ''W. B MASON'') None None None None None)
     ''spending''
   \<noteq> Inr [(''$limit'', ''50''),
          (''$where'',
           ''upper(vendor) like upper('%W. B MASON%') AND budget_fiscal_year = '2024'' @ [CHR 0x27])]"
  by (simp add: build_query_def spending_args_def where_clauses_def year_clauses_def
      dept_clauses_def vendor_clauses_def fund_clauses_def amount_clauses_def
      name_clauses_def search_clauses_def like_clause_def truthy_year_def truthy_str_def
      truthy_offset_def has_truthy_def attr_str_def str_int_50)

text \<open>
  C2: on the spending dataset (a Namespace of the \<open>spending\<close> sub-parser: string year,
  no name attribute) \<open>build_query\<close> succeeds, and its \<open>$where\<close> value is the clauses
  of the specification's filter table, one for each active filter, in the table's
  order, joined with " AND "; there is no \<open>$where\<close> when the table yields no clause.
\<close>

theorem spending_where_follows_filter_table:
  assumes "year a = Attr (map_option YStr y)" "dept a = Attr d"
    "vendor a = Attr v" "fund a = Attr f" "min_amount a = Attr mn" "max_amount a = Attr mx"
    "name a = NoAttr" "search a = s"
  shows "\<exists>p. build_query fstr a ''spending'' = Inr p
           \<and> map_of p ''$where'' =
               (if spec_clauses (spec_spending_filters fstr y d v f mn mx s) = [] then None
                else Some (join '' AND '' (spec_clauses (spec_spending_filters fstr y d v f mn mx s))))
           \<and> length (spec_clauses (spec_spending_filters fstr y d v f mn mx s))
               = length (filter (\<lambda>c. c \<noteq> None) (spec_spending_filters fstr y d v f mn mx s))"
proof -
  have w: "where_clauses fstr a (map_option YStr y) d ''spending''
         = spec_clauses (spec_spending_filters fstr y d v f mn mx s)"
    using assms(3-8) by (rule spending_where_clauses)
  show ?thesis
    by (simp add: build_query_Inr[OF assms(1,2)] w spec_clauses_length)
qed

subsection \<open>build_query at concrete inputs\<close>

lemmas build_query_eval = build_query_def spending_args_def where_clauses_def clause_defs
  like_clause_def truthy_year_def truthy_str_def truthy_offset_def has_truthy_def attr_str_def
  str_int_def digits.simps

lemma build_query_vendor_year:
  "build_query repr_integral
     (spending_args 50 None (Some ''2024'') None (Some ''W. B MASON'') None None None None None)
     ''spending''
   = Inr [(''$limit'', ''50''),
          (''$where'',
           ''budget_fiscal_year = '2024' AND upper(vendor) like upper('%W. B MASON%')'')]"
  by (simp add: build_query_eval)

lemma build_query_limit_zero:
  "build_query repr_integral
     (spending_args 0 None None None None None None None None None) ''spending''
   = Inr [(''$limit'', ''0'')]"
  by (simp add: build_query_eval)

lemma build_query_offset_zero:
  "build_query repr_integral
     (spending_args 100 (Some 0) None None None None None None None None) ''spending''
   = Inr [(''$limit'', ''100'')]"
  by (simp add: build_query_eval)

lemma build_query_payroll_amounts:
  "build_query repr_integral
     (payroll_args 100 None None None None (Some 100000) (Some 200000) None None) ''payroll''
   = Inr [(''$limit'', ''100''),
          (''$where'', ''pay_total_actual >= 100000.0 AND pay_total_actual <= 200000.0'')]"
  by (simp add: build_query_eval payroll_args_def repr_integral_def)

lemma build_query_returns_spending:
  "\<exists>p. build_query fstr (spending_args lim off y d v f mn mx s so) k = Inr p"
  by (simp add: build_query_Inr[of _ "map_option YStr y" d] spending_args_def)

lemma build_query_returns_payroll:
  "\<exists>p. build_query fstr (payroll_args lim off y d nm mn mx s so) k = Inr p"
  by (simp add: build_query_Inr[of _ "map_option YInt y" d] payroll_args_def)

theorem spending_where_follows_filter_table_witness:
  "\<exists>p. build_query repr_integral
          (spending_args 100 None (Some ''2024'') (Some ''POLICE'') None None
             (Some 100000) None (Some ''road'') None) ''spending'' = Inr p
       \<and> map_of p ''$where'' = Some
           ''budget_fiscal_year = '2024' AND upper(department) like upper('%POLICE%') AND amount >= 100000.0 AND (upper(vendor) like upper('%road%') OR upper(department) like upper('%road%'))''"
  using spending_where_follows_filter_table[of
      "spending_args 100 None (Some ''2024'') (Some ''POLICE'') None None
             (Some 100000) None (Some ''road'') None"
      "Some ''2024''" "Some ''POLICE''" None None "Some 100000" None "Some ''road''" repr_integral]
  by (simp add: spending_args_def spec_clauses_def spec_spending_filters_def spec_like_def
      repr_integral_def str_int_def digits.simps)

text \<open>
  C6: when \<open>build_query\<close> returns parameters, the key \<open>$where\<close> is among them exactly
  when the list of predicate clauses is not empty.  With no filter option set there is
  no \<open>$where\<close>; for the two datasets \<open>build_query\<close> is called with, \<open>$where\<close> is
  present exactly when some filter option is set.
\<close>

theorem where_key_iff_clause:
  assumes "build_query fstr a k = Inr p"
  shows "\<exists>y d. year a = Attr y \<and> dept a = Attr d
           \<and> ((''$where'' \<in> fst ` set p) = (where_clauses fstr a y d k \<noteq> []))
           \<and> (\<not> filter_active a \<longrightarrow> ''$where'' \<notin> fst ` set p)
           \<and> (k = ''spending'' \<or> k = ''payroll'' \<longrightarrow>
                 (''$where'' \<in> fst ` set p) = filter_active a)"
proof -
  from assms obtain y d where yd: "year a = Attr y" "dept a = Attr d"
    by (auto simp: build_query_def split: attr.splits)
  have p: "fst ` set p = {''$limit''}
             \<union> (if truthy_offset (offset a) then {''$offset''} else {})
             \<union> (if where_clauses fstr a y d k \<noteq> [] then {''$where''} else {})
             \<union> (if truthy_str (sort_arg a) then {''$order''} else {})"
    using assms unfolding build_query_Inr[OF yd] by auto
  have e: "(where_clauses fstr a y d k = []) =
           (year_clauses y k = [] \<and> dept_clauses d k = [] \<and> vendor_clauses (vendor a) = []
            \<and> fund_clauses (fund a) = [] \<and> amount_clauses fstr ''>='' (min_amount a) k = []
            \<and> amount_clauses fstr ''<='' (max_amount a) k = [] \<and> name_clauses (name a) = []
            \<and> search_clauses (search a) k = [])"
    by (simp add: where_clauses_def)
  have na: "\<not> filter_active a \<Longrightarrow> where_clauses fstr a y d k = []"
    unfolding e using yd
    by (auto simp: filter_active_def clause_defs has_truthy_def split: attr.splits option.splits)
  have ac: "k = ''spending'' \<or> k = ''payroll'' \<Longrightarrow> filter_active a
            \<Longrightarrow> where_clauses fstr a y d k \<noteq> []"
    unfolding e using yd
    by (auto simp: filter_active_def clause_defs has_truthy_def split: attr.splits option.splits)
  have w: "(''$where'' \<in> fst ` set p) = (where_clauses fstr a y d k \<noteq> [])"
    unfolding p by simp
  show ?thesis using yd w na ac by blast
qed


theorem where_key_iff_clause_witness:
  "filter_active (spending_args 50 None (Some ''2024'') None (Some ''W. B MASON'') None None None None None)
   \<and> ''$where'' \<in> fst ` set [(''$limit'', ''50''),
          (''$where'',
           ''budget_fiscal_year = '2024' AND upper(vendor) like upper('%W. B MASON%')'')]
   \<and> \<not> filter_active (spending_args 0 None None None None None None None None None)
   \<and> ''$where'' \<notin> fst ` set [(''$limit'', ''0'')]"
  using where_key_iff_clause[OF build_query_vendor_year]
    where_key_iff_clause[OF build_query_limit_zero]
  by (simp add: filter_active_def spending_args_def has_truthy_def truthy_str_def
      truthy_year_def)

text \<open>
  C7, as the code behaves: the \<open>$limit\<close> value is \<open>str(args.limit)\<close> for whatever int
  \<open>--limit\<close> was given, and it is the decimal representation of a positive integer
  exactly when that int is positive.
\<close>

theorem limit_param_is_str_of_limit:
  assumes "build_query fstr a k = Inr p"
  shows "map_of p ''$limit'' = Some (str_int (limit a))
         \<and> positive_decimal (str_int (limit a)) = (0 < limit a)"
proof -
  from assms obtain y d where yd: "year a = Attr y" "dept a = Attr d"
    by (auto simp: build_query_def split: attr.splits)
  have l: "map_of p ''$limit'' = Some (str_int (limit a))"
    using assms unfolding build_query_Inr[OF yd] by auto
  show ?thesis unfolding l by (simp add: positive_decimal_str_int)
qed

theorem limit_param_is_str_of_limit_witness:
  "map_of [(''$limit'', ''50''),
          (''$where'',
           ''budget_fiscal_year = '2024' AND upper(vendor) like upper('%W. B MASON%')'')]
      ''$limit'' = Some ''50''
   \<and> positive_decimal ''50''"
  using limit_param_is_str_of_limit[OF build_query_vendor_year]
  by (simp add: spending_args_def str_int_50)

text \<open>
  C7, as the claim states it, fails: \<open>--limit 0\<close> is accepted, and the \<open>$limit\<close>
  value is then "0", which is not the decimal representation of a positive integer.
\<close>

theorem limit_zero_not_positive:
  "build_query repr_integral
     (spending_args 0 None None None None None None None None None) ''spending''
   = Inr [(''$limit'', ''0'')]
   \<and> \<not> positive_decimal ''0''"
  by (simp add: build_query_limit_zero positive_decimal_def)

text \<open>
  C9: \<open>build_query\<close> and the reduced builders of \<open>settlements\<close> and \<open>revenue\<close> emit
  \<open>$offset\<close> exactly when an offset was given and is not 0; offset 0 is treated like
  no offset.
\<close>

theorem offset_zero_is_absent:
  "(build_query fstr a k = Inr p \<longrightarrow>
      (''$offset'' \<in> fst ` set p) = (\<exists>n. offset a = Some n \<and> n \<noteq> 0))
   \<and> ((''$offset'' \<in> fst ` set (cmd_settlements_params a)) = (\<exists>n. offset a = Some n \<and> n \<noteq> 0))
   \<and> ((''$offset'' \<in> fst ` set (cmd_revenue_params a)) = (\<exists>n. offset a = Some n \<and> n \<noteq> 0))"
proof -
  have t: "truthy_offset (offset a) = (\<exists>n. offset a = Some n \<and> n \<noteq> 0)"
    by (simp add: truthy_offset_def split: option.splits)
  have 1: "(''$offset'' \<in> fst ` set p) = (\<exists>n. offset a = Some n \<and> n \<noteq> 0)"
    if b: "build_query fstr a k = Inr p"
  proof -
    from b obtain y d where yd: "year a = Attr y" "dept a = Attr d"
      by (auto simp: build_query_def split: attr.splits)
    show ?thesis using b unfolding build_query_Inr[OF yd] t[symmetric] by auto
  qed
  have 2: "(''$offset'' \<in> fst ` set (reduced_params a)) = (\<exists>n. offset a = Some n \<and> n \<noteq> 0)"
    unfolding t[symmetric] by (simp add: reduced_params_def Let_def)
  show ?thesis using 1 2 by (simp add: cmd_settlements_params_def cmd_revenue_params_def)
qed


theorem offset_zero_is_absent_witness:
  "''$offset'' \<notin> fst ` set [(''$limit'', ''100'')]
   \<and> ''$offset'' \<notin> fst ` set (cmd_settlements_params
         (common_args ''settlements'' 100 (Some 0) None :: int args))
   \<and> ''$offset'' \<notin> fst ` set (cmd_revenue_params
         (common_args ''revenue'' 100 (Some 0) None :: int args))
   \<and> ''$offset'' \<in> fst ` set (cmd_settlements_params
         (common_args ''settlements'' 100 (Some 200) None :: int args))"
  using offset_zero_is_absent[of repr_integral
      "spending_args 100 (Some 0) None None None None None None None None" "''spending''"
      "[(''$limit'', ''100'')]"]
    offset_zero_is_absent[of repr_integral
      "common_args ''settlements'' 100 (Some 0) None" "''spending''" "[]"]
    offset_zero_is_absent[of repr_integral
      "common_args ''settlements'' 100 (Some 200) None" "''spending''" "[]"]
    offset_zero_is_absent[of repr_integral
      "common_args ''revenue'' 100 (Some 0) None" "''spending''" "[]"]
  by (simp add: build_query_offset_zero spending_args_def common_args_def)

section \<open>Properties of format_csv\<close>

lemma set_replace_dq: "set (replace_dq s) = set s"
  by (induction s) (auto simp: replace_dq_def)

lemma replace_dq_id: "CHR 0x22 \<notin> set s \<Longrightarrow> replace_dq s = s"
  by (induction s) (auto simp: replace_dq_def)

lemma replace_dq_Cons:
  "replace_dq (c # s) = (if c = CHR 0x22 then CHR 0x22 # CHR 0x22 # replace_dq s
                         else c # replace_dq s)"
  by (simp add: replace_dq_def)

lemma replace_dq_Nil: "replace_dq [] = []"
  by (simp add: replace_dq_def)

lemma csv_value_eq:
  "csv_value s = (if CHR '','' \<in> set s \<or> CHR 0x22 \<in> set s \<or> CHR 0x0A \<in> set s
                  then [CHR 0x22] @ replace_dq s @ [CHR 0x22] else s)"
  by (simp add: csv_value_def Let_def set_replace_dq replace_dq_id)

lemma std_csv_quoted_replace:
  "rest = [] \<or> hd rest \<noteq> CHR 0x22 \<Longrightarrow>
   std_csv_quoted (replace_dq s @ CHR 0x22 # rest) = Some (s, rest)"
proof (induction s)
  case Nil
  then show ?case by (cases rest) (simp_all add: replace_dq_Nil)
next
  case (Cons c s)
  show ?case
  proof (cases "c = CHR 0x22")
    case True
    with Cons show ?thesis by (simp add: replace_dq_Cons)
  next
    case False
    obtain d ds where e: "replace_dq s @ CHR 0x22 # rest = d # ds"
      by (cases "replace_dq s @ CHR 0x22 # rest") simp_all
    from False Cons show ?thesis
      unfolding replace_dq_Cons by (simp add: e[symmetric] del: append_Cons) (simp add: e)
  qed
qed

text \<open>
  C4: the CSV form of a stringified value is the value in double quotes, with every
  double quote inside doubled, exactly when the value contains a comma, a double quote
  or a line feed, and the value itself otherwise.  For a value that contains a comma or
  a double quote, reading the emitted field back by the standard field grammar (with
  whatever follows the field on the line, which does not start with a double quote)
  gives the value and leaves what follows.
\<close>

theorem csv_value_quoting_roundtrip:
  "csv_value s = (if CHR '','' \<in> set s \<or> CHR 0x22 \<in> set s \<or> CHR 0x0A \<in> set s
                  then [CHR 0x22] @ replace_dq s @ [CHR 0x22] else s)
   \<and> (CHR '','' \<in> set s \<or> CHR 0x22 \<in> set s \<longrightarrow> rest = [] \<or> hd rest \<noteq> CHR 0x22
        \<longrightarrow> std_csv_field (csv_value s @ rest) = Some (s, rest))"
  by (auto simp: csv_value_eq std_csv_field_def std_csv_quoted_replace)

theorem csv_value_quoting_roundtrip_witness:
  \<open>csv_value ''a,"b'' = ''"a,""b"''
   \<and> std_csv_field (csv_value ''a,"b'' @ '',x'') = Some (''a,"b'', '',x'')\<close>
  using csv_value_quoting_roundtrip[of \<open>''a,"b''\<close> \<open>'',x''\<close>] by (auto simp: replace_dq_def)


section \<open>Snapshot file names\<close>

lemma dropWhile_fixed: "xs = [] \<or> \<not> P (hd xs) \<Longrightarrow> dropWhile P xs = xs"
  by (cases xs) auto

lemma last_dropWhile_rev:
  assumes "dropWhile P (rev u) \<noteq> []"
  shows "last (dropWhile P (rev u)) = hd u"
proof -
  from assms have "rev u \<noteq> []" by auto
  have "last (dropWhile P (rev u)) = last (rev u)"
    using assms by (metis last_appendR takeWhile_dropWhile_id)
  also have "\<dots> = hd u" using \<open>rev u \<noteq> []\<close> by (simp add: last_rev)
  finally show ?thesis .
qed

lemma trim_hd:
  "rev (dropWhile P (rev (dropWhile P s))) = []
   \<or> \<not> P (hd (rev (dropWhile P (rev (dropWhile P s)))))"
proof (cases "dropWhile P (rev (dropWhile P s)) = []")
  case True
  then show ?thesis by (simp only: rev.simps simp_thms)
next
  case False
  have u: "dropWhile P s \<noteq> []"
  proof
    assume "dropWhile P s = []"
    then have "dropWhile P (rev (dropWhile P s)) = []" by (simp only: rev.simps dropWhile.simps)
    with False show False ..
  qed
  have h: "\<not> P (hd (dropWhile P s))" using u by (rule hd_dropWhile)
  have "hd (rev (dropWhile P (rev (dropWhile P s)))) = last (dropWhile P (rev (dropWhile P s)))"
    by (rule hd_rev)
  also have "\<dots> = hd (dropWhile P s)" using False by (rule last_dropWhile_rev)
  finally show ?thesis using h by (simp only: simp_thms)
qed

lemma trim_last:
  "rev (dropWhile P (rev (dropWhile P s))) = []
   \<or> \<not> P (last (rev (dropWhile P (rev (dropWhile P s)))))"
proof (cases "dropWhile P (rev (dropWhile P s)) = []")
  case True
  then show ?thesis by (simp only: rev.simps simp_thms)
next
  case False
  then have "\<not> P (hd (dropWhile P (rev (dropWhile P s))))" by (rule hd_dropWhile)
  moreover have "last (rev (dropWhile P (rev (dropWhile P s))))
                 = hd (dropWhile P (rev (dropWhile P s)))" by (rule last_rev)
  ultimately show ?thesis by (simp only: simp_thms)
qed

lemma strip_underscores_hd:
  "strip_underscores s = [] \<or> hd (strip_underscores s) \<noteq> CHR ''_''"
  unfolding strip_underscores_def by (rule trim_hd)

lemma strip_underscores_last:
  "strip_underscores s = [] \<or> last (strip_underscores s) \<noteq> CHR ''_''"
  unfolding strip_underscores_def by (rule trim_last)

lemma strip_underscores_fixed:
  assumes "t = [] \<or> hd t \<noteq> CHR ''_''" and "t = [] \<or> last t \<noteq> CHR ''_''"
  shows "strip_underscores t = t"
proof -
  let ?P = "\<lambda>c. c = CHR ''_''"
  have 1: "dropWhile ?P t = t" using assms(1) by (intro dropWhile_fixed) simp
  have "rev t = [] \<or> \<not> ?P (hd (rev t))" using assms(2) by (cases "t = []") (simp_all add: hd_rev)
  then have 2: "dropWhile ?P (rev t) = rev t" by (rule dropWhile_fixed)
  show ?thesis by (simp add: strip_underscores_def 1 2)
qed

lemma strip_underscores_idem: "strip_underscores (strip_underscores s) = strip_underscores s"
  using strip_underscores_hd strip_underscores_last by (rule strip_underscores_fixed)

lemma set_strip_underscores: "set (strip_underscores s) \<subseteq> set s"
proof
  fix x assume "x \<in> set (strip_underscores s)"
  then have "x \<in> set (dropWhile (\<lambda>c. c = CHR ''_'') (rev (dropWhile (\<lambda>c. c = CHR ''_'') s)))"
    by (simp add: strip_underscores_def)
  then have "x \<in> set (rev (dropWhile (\<lambda>c. c = CHR ''_'') s))" by (rule set_dropWhileD)
  then have "x \<in> set (dropWhile (\<lambda>c. c = CHR ''_'') s)" by simp
  then show "x \<in> set s" by (rule set_dropWhileD)
qed

lemma length_strip_underscores: "length (strip_underscores s) \<le> length s"
proof -
  have "length (strip_underscores s) \<le> length (dropWhile (\<lambda>c. c = CHR ''_'') s)"
    unfolding strip_underscores_def length_rev
    using length_dropWhile_le[of _ "rev (dropWhile (\<lambda>c. c = CHR ''_'') s)"] by simp
  also have "\<dots> \<le> length s" by (rule length_dropWhile_le)
  finally show ?thesis .
qed

lemma sanitize_with_idem:
  assumes "w CHR ''_''"
  shows "sanitize_with w (sanitize_with w s) = sanitize_with w s"
proof -
  define f where "f = (\<lambda>c. if w c then c else CHR ''_'')"
  define t where "t = take 20 (map f s)"
  define r where "r = strip_underscores t"
  have wf: "w (f c)" for c using assms by (simp add: f_def)
  have "set r \<subseteq> set t" unfolding r_def by (rule set_strip_underscores)
  also have "\<dots> \<subseteq> set (map f s)" unfolding t_def by (rule set_take_subset)
  finally have sub: "set r \<subseteq> f ` set s" by simp
  have "f c = c" if "c \<in> set r" for c
  proof -
    from that sub obtain d where "c = f d" by auto
    then have "w c" using wf by simp
    then show ?thesis by (simp add: f_def)
  qed
  then have m: "map f r = r" by (simp add: map_idI)
  have "length r \<le> length t" unfolding r_def by (rule length_strip_underscores)
  also have "\<dots> \<le> 20" unfolding t_def by simp
  finally have tk: "take 20 r = r" by simp
  have i: "strip_underscores r = r" unfolding r_def by (rule strip_underscores_idem)
  have e: "sanitize_with w x = strip_underscores (take 20 (map f x))" for x
    by (simp add: sanitize_with_def f_def)
  have "sanitize_with w s = r" by (simp only: e r_def t_def)
  moreover have "sanitize_with w r = r" by (simp only: e m tk i)
  ultimately show ?thesis by simp
qed


lemma is_word_underscore: "is_word_char CHR ''_''"
  by (simp add: is_word_char_def)

text \<open>
  C8: the sanitization of a file-name part (every non-word character replaced by an
  underscore, cut to 20 characters, underscores stripped at both ends) is idempotent.
\<close>

theorem sanitize_idempotent: "sanitize (sanitize s) = sanitize s"
  unfolding sanitize_def using is_word_underscore by (rule sanitize_with_idem)

section \<open>Properties of format_table\<close>

lemma foldl_max_Max:
  "foldl (\<lambda>m r. max m (g r)) (a::nat) xs = Max (insert a (g ` set xs))"
proof (induction xs arbitrary: a)
  case Nil
  show ?case by simp
next
  case (Cons x xs)
  have "foldl (\<lambda>m r. max m (g r)) a (x # xs) = Max (insert (max a (g x)) (g ` set xs))"
    by (simp add: Cons.IH)
  also have "\<dots> = max (max a (g x)) (Max (insert (g x) (g ` set xs)))"
    by (cases "set xs = {}") (simp_all add: max.assoc max.left_commute)
  also have "\<dots> = Max (insert a (insert (g x) (g ` set xs)))"
    by (simp add: max.assoc)
  finally show ?case by simp
qed

lemma col_max_len_Max:
  "col_max_len fstr data col
   = Max (insert (length col) ((\<lambda>r. length (take 40 (get_str fstr r col))) ` set (take 50 data)))"
  unfolding col_max_len_def by (rule foldl_max_Max)

lemma length_ljust: "length (ljust w s) = max w (length s)"
  by (simp add: ljust_def)

lemma length_table_cell: "length (table_cell fstr data r col) = col_width fstr data col"
  by (simp add: table_cell_def length_ljust)

lemma length_header_cell: "length (header_cell fstr data col) = col_width fstr data col"
  by (simp add: header_cell_def length_ljust)

lemma col_width_le_40: "col_width fstr data col \<le> 40"
  by (simp add: col_width_def)

lemma format_table_lines:
  "format_table fstr (first # rest) columns =
     join [CHR 0x0A]
       ([join '' | '' (map (header_cell fstr (first # rest)) (table_cols first columns)),
         join ''-+-'' (map (\<lambda>col. replicate (col_width fstr (first # rest) col) CHR ''-'')
                         (table_cols first columns))]
        @ map (\<lambda>r. join '' | '' (map (table_cell fstr (first # rest) r) (table_cols first columns)))
            (first # rest))"
  by (simp add: format_table_def Let_def)

text \<open>
  C5: for a non-empty result set, the width of a column is the minimum of 40 and the
  maximum of the header's length and the lengths, over the first 50 records, of the
  stringified value cut to 40 characters.  Every cell of every record (sampled or not)
  is cut to that width before padding, the padded cell is no longer than the width, and
  the width is at most 40.
\<close>

theorem table_width_and_cell_bounds:
  assumes "data \<noteq> []"
  shows "col_width fstr data col
           = min 40 (max (length col)
               (Max ((\<lambda>r. length (take 40 (get_str fstr r col))) ` set (take 50 data))))
         \<and> length (table_cell fstr data r col) \<le> col_width fstr data col
         \<and> length (take (col_width fstr data col) (get_str fstr r col)) \<le> col_width fstr data col
         \<and> col_width fstr data col \<le> 40"
proof -
  from assms have ne: "set (take 50 data) \<noteq> {}" by (cases data) simp_all
  have "col_max_len fstr data col
        = max (length col)
            (Max ((\<lambda>r. length (take 40 (get_str fstr r col))) ` set (take 50 data)))"
    unfolding col_max_len_Max using ne by simp
  then have w: "col_width fstr data col
           = min 40 (max (length col)
               (Max ((\<lambda>r. length (take 40 (get_str fstr r col))) ` set (take 50 data))))"
    by (simp only: col_width_def min.commute)
  have c: "length (table_cell fstr data r col) \<le> col_width fstr data col"
    by (simp only: length_table_cell order_refl)
  have t: "length (take (col_width fstr data col) (get_str fstr r col)) \<le> col_width fstr data col"
    by (simp only: length_take min.cobounded2)
  from w c t col_width_le_40 show ?thesis by (intro conjI)
qed

theorem table_width_and_cell_bounds_witness:
  "col_width repr_integral
     [[(''vendor'', JStr ''ACME''), (''amount'', JInt 12)],
      [(''vendor'', JStr ''MASSACHUSETTS BAY TRANSPORTATION AUTHORITY INC''), (''amount'', JNull)]]
     ''vendor'' = 40
   \<and> col_width repr_integral
     [[(''vendor'', JStr ''ACME''), (''amount'', JInt 12)],
      [(''vendor'', JStr ''MASSACHUSETTS BAY TRANSPORTATION AUTHORITY INC''), (''amount'', JNull)]]
     ''amount'' = 6
   \<and> length (table_cell repr_integral
     [[(''vendor'', JStr ''ACME''), (''amount'', JInt 12)],
      [(''vendor'', JStr ''MASSACHUSETTS BAY TRANSPORTATION AUTHORITY INC''), (''amount'', JNull)]]
     [(''vendor'', JStr ''MASSACHUSETTS BAY TRANSPORTATION AUTHORITY INC''), (''amount'', JNull)]
     ''vendor'') \<le> 40"
  using table_width_and_cell_bounds[of "[[(''vendor'', JStr ''ACME''), (''amount'', JInt 12)],
      [(''vendor'', JStr ''MASSACHUSETTS BAY TRANSPORTATION AUTHORITY INC''), (''amount'', JNull)]]"
     repr_integral "''vendor''"
     "[(''vendor'', JStr ''MASSACHUSETTS BAY TRANSPORTATION AUTHORITY INC''), (''amount'', JNull)]"]
   table_width_and_cell_bounds[of "[[(''vendor'', JStr ''ACME''), (''amount'', JInt 12)],
      [(''vendor'', JStr ''MASSACHUSETTS BAY TRANSPORTATION AUTHORITY INC''), (''amount'', JNull)]]"
     repr_integral "''amount''" "[]"]
  by (simp add: get_str_def str_int_def digits.simps)

section \<open>Properties of output_results\<close>

lemma nonempty_save_json_writes:
  "data \<noteq> [] \<Longrightarrow> save_json a \<Longrightarrow>
   writes (output_results fstr sy data a default_columns url_text dataset_id ps) \<noteq> []"
  by (simp add: output_results_def writes_def snapshot_effects_def Let_def)

lemma nonempty_output_writes:
  "data \<noteq> [] \<Longrightarrow> truthy_str (output_arg a) \<Longrightarrow>
   writes (output_results fstr sy data a default_columns url_text dataset_id ps) \<noteq> []"
  by (simp add: output_results_def writes_def snapshot_effects_def Let_def)

text \<open>
  C3: for an empty result set, whatever the format, \<open>--save-json\<close> and \<open>--output\<close>,
  \<open>output_results\<close> prints the one line "No results found." and writes no file.
\<close>

theorem empty_result_prints_and_writes_nothing:
  "output_results fstr sy [] a default_columns url_text dataset_id ps
     = [Print ''No results found.'']
   \<and> writes (output_results fstr sy [] a default_columns url_text dataset_id ps) = []"
  by (simp add: output_results_def writes_def)

section \<open>Null and missing fields\<close>

lemma get_str_null: "map_of r col = Some JNull \<Longrightarrow> get_str fstr r col = ''None''"
  by (simp add: get_str_def)

lemma get_str_absent: "map_of r col = None \<Longrightarrow> get_str fstr r col = []"
  by (simp add: get_str_def)

lemma csv_value_None: "csv_value ''None'' = ''None''"
  by (simp add: csv_value_eq)

lemma csv_value_empty: "csv_value [] = []"
  by (simp add: csv_value_eq)

lemma col_width_sampled:
  assumes "r \<in> set (take 50 data)"
  shows "min 40 (length (get_str fstr r col)) \<le> col_width fstr data col"
proof -
  let ?S = "insert (length col) ((\<lambda>r. length (take 40 (get_str fstr r col))) ` set (take 50 data))"
  have "length (take 40 (get_str fstr r col)) \<in> ?S" using assms by simp
  moreover have "finite ?S" by simp
  ultimately have "length (take 40 (get_str fstr r col)) \<le> Max ?S" by (rule Max_ge[rotated])
  then show ?thesis by (simp add: col_width_def col_max_len_Max min.commute)
qed

text \<open>
  C10, as the code behaves: a field that holds null is stringified to "None", a field
  that is absent to the empty string.  In CSV these are the emitted fields.  In a table
  the cell of the null field is "None" cut to the column's width and padded with blanks,
  the cell of the absent field is all blanks; the two differ exactly when the width is
  not 0, and a null within the first 50 records makes the width at least 4, so that the
  cell starts with the whole "None".
\<close>

theorem null_and_absent_rendering:
  assumes "map_of r col = Some JNull" and "map_of r' col = None"
  shows "csv_value (get_str fstr r col) = ''None''
       \<and> csv_value (get_str fstr r' col) = []
       \<and> table_cell fstr data r col
           = ljust (col_width fstr data col) (take (col_width fstr data col) ''None'')
       \<and> table_cell fstr data r' col = replicate (col_width fstr data col) CHR '' ''
       \<and> (table_cell fstr data r col \<noteq> table_cell fstr data r' col)
           = (0 < col_width fstr data col)
       \<and> (r \<in> set (take 50 data) \<longrightarrow>
            table_cell fstr data r col
              = ''None'' @ replicate (col_width fstr data col - 4) CHR '' '')"
proof -
  let ?w = "col_width fstr data col"
  have n: "get_str fstr r col = ''None''" using assms(1) by (rule get_str_null)
  have a: "get_str fstr r' col = []" using assms(2) by (rule get_str_absent)
  have 1: "csv_value (get_str fstr r col) = ''None''" by (simp only: n csv_value_None)
  have 2: "csv_value (get_str fstr r' col) = []" by (simp only: a csv_value_empty)
  have 3: "table_cell fstr data r col = ljust ?w (take ?w ''None'')"
    by (simp only: table_cell_def n)
  have 4: "table_cell fstr data r' col = replicate ?w CHR '' ''"
    by (simp add: table_cell_def a ljust_def)
  have 5: "(table_cell fstr data r col \<noteq> table_cell fstr data r' col) = (0 < ?w)"
  proof (cases ?w)
    case 0
    then show ?thesis by (simp add: 3 4 ljust_def)
  next
    case (Suc m)
    then show ?thesis by (simp add: 3 4 ljust_def)
  qed
  have 6: "table_cell fstr data r col = ''None'' @ replicate (?w - 4) CHR '' ''"
    if "r \<in> set (take 50 data)"
  proof -
    from col_width_sampled[OF that, of fstr col] have "4 \<le> ?w" by (simp add: n)
    then show ?thesis by (simp add: 3 ljust_def)
  qed
  from 1 2 3 4 5 6 show ?thesis by blast
qed

theorem null_and_absent_rendering_witness:
  "csv_value (get_str repr_integral [(''a'', JNull)] ''a'') = ''None''
   \<and> csv_value (get_str repr_integral [(''b'', JStr ''y'')] ''a'') = []
   \<and> table_cell repr_integral [[(''a'', JNull)], [(''b'', JStr ''y'')]] [(''a'', JNull)] ''a''
       = ''None''
   \<and> table_cell repr_integral [[(''a'', JNull)], [(''b'', JStr ''y'')]] [(''b'', JStr ''y'')] ''a''
       = ''    ''"
proof -
  have w: "col_width repr_integral [[(''a'', JNull)], [(''b'', JStr ''y'')]] ''a'' = 4"
    by (simp add: col_width_def col_max_len_Max get_str_def)
  have m: "[(''a'', JNull)] \<in> set (take 50 [[(''a'', JNull)], [(''b'', JStr ''y'')]])"
    by simp
  show ?thesis
    using null_and_absent_rendering[of "[(''a'', JNull)]" "''a''" "[(''b'', JStr ''y'')]" repr_integral
        "[[(''a'', JNull)], [(''b'', JStr ''y'')]]"] m
    by (simp add: w ljust_def eval_nat_numeral)
qed

lemma col_width_51:
  "col_width repr_integral (replicate 50 [(''a'', JStr ''x'')] @ [[(''a'', JNull)]]) ''a'' = 1"
  by (simp add: col_width_def col_max_len_Max get_str_def)

text \<open>
  C10, as the claim states it, fails for a table: with 50 records whose field \<open>a\<close> is
  "x" and a 51st whose field \<open>a\<close> is null, the width of column \<open>a\<close> is 1 and the
  null cell is rendered as "N".
\<close>

theorem null_cell_truncated_beyond_sample:
  "table_cell repr_integral (replicate 50 [(''a'', JStr ''x'')] @ [[(''a'', JNull)]])
     [(''a'', JNull)] ''a'' = ''N''"
  by (simp add: table_cell_def col_width_51 get_str_def ljust_def)

end
